theory Spec2Isabelle
  imports Complex_Main "HOL-Library.AList"
begin

section \<open>JavaScript values\<close>

text \<open>
  The parser works on the document that swagger-parser hands back: a tree of plain
  JavaScript values. A string is the list of its code units (the model covers the code
  units below 256). An object is the list of its own enumerable properties in the order
  in which they were created, which for a parsed document is the order of its text; its
  keys are pairwise different. A number is a double: not a number, an infinity (\<open>True\<close>
  for the negative one) or a rational, where \<open>0\<close> stands for both zeros.
\<close>

datatype number = NaN | Infinite bool | Finite rat

datatype jsval =
    Undefined
  | Null
  | Bool bool
  | Num number
  | Str string
  | Arr "jsval list"
  | Obj "(string \<times> jsval) list"

text \<open>
  Errors are values. \<open>TypeError\<close> is what the runtime raises (a property read on
  \<^verbatim>\<open>null\<close> or \<^verbatim>\<open>undefined\<close>, a call of a method the value does not have).
  \<open>External\<close> is an error raised by a collaborator (the file system, swagger-parser,
  js-yaml, the tester, the reporter) with its message. The remaining constructors are the
  three \<^verbatim>\<open>new Error(...)\<close> of swaggerParser.js; each carries what the source
  interpolates into its message.
\<close>

datatype error =
    TypeError
  | External string
  | ParseFailed error
  | SaveFailed error
  | UnsupportedFormat string

fun bindE :: "error + 'a \<Rightarrow> ('a \<Rightarrow> error + 'b) \<Rightarrow> error + 'b" where
  "bindE (Inl e) f = Inl e"
| "bindE (Inr x) f = f x"

fun mapE :: "('a \<Rightarrow> error + 'b) \<Rightarrow> 'a list \<Rightarrow> error + 'b list" where
  "mapE f [] = Inr []"
| "mapE f (x # xs) =
     (case f x of
        Inl e \<Rightarrow> Inl e
      | Inr y \<Rightarrow> (case mapE f xs of Inl e \<Rightarrow> Inl e | Inr ys \<Rightarrow> Inr (y # ys)))"

text \<open>Truthiness, as \<^verbatim>\<open>if (v)\<close>, \<^verbatim>\<open>!v\<close> and \<^verbatim>\<open>v || d\<close> test it.\<close>

fun truthy :: "jsval \<Rightarrow> bool" where
  "truthy Undefined = False"
| "truthy Null = False"
| "truthy (Bool b) = b"
| "truthy (Num NaN) = False"
| "truthy (Num (Infinite s)) = True"
| "truthy (Num (Finite r)) = (r \<noteq> 0)"
| "truthy (Str s) = (s \<noteq> [])"
| "truthy (Arr xs) = True"
| "truthy (Obj kvs) = True"

definition or_else :: "jsval \<Rightarrow> jsval \<Rightarrow> jsval" where
  \<comment> \<open>\<^verbatim>\<open>a || b\<close>\<close>
  "or_else a b = (if truthy a then a else b)"

subsection \<open>Property keys of arrays and strings\<close>

definition digit_char :: "nat \<Rightarrow> char" where
  "digit_char n = char_of (48 + n)"

fun string_of_nat :: "nat \<Rightarrow> string" where
  "string_of_nat n =
     (if n < 10 then [digit_char n] else string_of_nat (n div 10) @ [digit_char (n mod 10)])"

definition is_digit :: "char \<Rightarrow> bool" where
  "is_digit c = (48 \<le> (of_char c :: nat) \<and> (of_char c :: nat) \<le> 57)"

definition decimal_value :: "string \<Rightarrow> int" where
  "decimal_value k = foldl (\<lambda>a c. 10 * a + (of_char c - 48)) 0 k"

definition array_index :: "string \<Rightarrow> int option" where
  \<comment> \<open>a key that is the decimal numeral of an array index (an integer below
      \<open>2^32 - 1\<close>), written without leading zeros\<close>
  "array_index k =
     (if k \<noteq> [] \<and> list_all is_digit k \<and> (k = ''0'' \<or> hd k \<noteq> CHR ''0'')
         \<and> decimal_value k < 4294967295
      then Some (decimal_value k)
      else None)"

definition index_of_key :: "string \<times> jsval \<Rightarrow> int" where
  "index_of_key kv = (case array_index (fst kv) of None \<Rightarrow> 0 | Some i \<Rightarrow> i)"

definition has_index_key :: "string \<times> jsval \<Rightarrow> bool" where
  "has_index_key kv = (case array_index (fst kv) of None \<Rightarrow> False | Some i \<Rightarrow> True)"

definition enumeration_order :: "(string \<times> jsval) list \<Rightarrow> (string \<times> jsval) list" where
  \<comment> \<open>the order in which the own properties of an object are enumerated: the keys
      that are array indices first, by ascending index, then the other keys in the order
      of their creation\<close>
  "enumeration_order kvs =
     sort_key index_of_key (filter has_index_key kvs)
       @ filter (\<lambda>kv. \<not> has_index_key kv) kvs"

text \<open>
  \<^verbatim>\<open>v[k]\<close> and \<^verbatim>\<open>v.k\<close>. The property names that the program reads are, apart
  from \<^verbatim>\<open>length\<close> and the index \<^verbatim>\<open>0\<close>, names that no prototype of a plain value
  defines, so on anything but an object with that key the read gives
  \<^verbatim>\<open>undefined\<close>; on \<^verbatim>\<open>null\<close> and \<^verbatim>\<open>undefined\<close> it raises.
\<close>

fun getp :: "jsval \<Rightarrow> string \<Rightarrow> error + jsval" where
  "getp Undefined k = Inl TypeError"
| "getp Null k = Inl TypeError"
| "getp (Bool b) k = Inr Undefined"
| "getp (Num n) k = Inr Undefined"
| "getp (Str s) k =
     (if k = ''length'' then Inr (Num (Finite (of_nat (length s))))
      else case array_index k of
             None \<Rightarrow> Inr Undefined
           | Some i \<Rightarrow> Inr (if i < int (length s) then Str [s ! nat i] else Undefined))"
| "getp (Arr xs) k =
     (if k = ''length'' then Inr (Num (Finite (of_nat (length xs))))
      else case array_index k of
             None \<Rightarrow> Inr Undefined
           | Some i \<Rightarrow> Inr (if i < int (length xs) then xs ! nat i else Undefined))"
| "getp (Obj kvs) k = Inr (case map_of kvs k of None \<Rightarrow> Undefined | Some v \<Rightarrow> v)"

fun entries :: "jsval \<Rightarrow> error + (string \<times> jsval) list" where
  \<comment> \<open>\<^verbatim>\<open>Object.entries(v)\<close>\<close>
  "entries Undefined = Inl TypeError"
| "entries Null = Inl TypeError"
| "entries (Bool b) = Inr []"
| "entries (Num n) = Inr []"
| "entries (Str s) = Inr (zip (map string_of_nat [0..<length s]) (map (\<lambda>c. Str [c]) s))"
| "entries (Arr xs) = Inr (zip (map string_of_nat [0..<length xs]) xs)"
| "entries (Obj kvs) = Inr (enumeration_order kvs)"

definition keys :: "jsval \<Rightarrow> error + string list" where
  \<comment> \<open>\<^verbatim>\<open>Object.keys(v)\<close>\<close>
  "keys v = bindE (entries v) (\<lambda>es. Inr (map fst es))"

subsection \<open>Case conversion and the operationId pattern\<close>

definition toUpperCase :: "string \<Rightarrow> string" where
  \<comment> \<open>\<^verbatim>\<open>String.prototype.toUpperCase\<close> on ASCII text; the source applies it to the
      seven method names only\<close>
  "toUpperCase s =
     map (\<lambda>c. if 97 \<le> (of_char c :: nat) \<and> (of_char c :: nat) \<le> 122
              then char_of ((of_char c :: nat) - 32) else c) s"

definition toLowerCase :: "string \<Rightarrow> string" where
  \<comment> \<open>\<^verbatim>\<open>String.prototype.toLowerCase\<close> on code units below 256: A-Z and the
      accented capitals 0xC0-0xDE (without the multiplication sign 0xD7) move up by 32\<close>
  "toLowerCase s =
     map (\<lambda>c. if (65 \<le> (of_char c :: nat) \<and> (of_char c :: nat) \<le> 90)
                 \<or> (192 \<le> (of_char c :: nat) \<and> (of_char c :: nat) \<le> 222
                     \<and> (of_char c :: nat) \<noteq> 215)
              then char_of ((of_char c :: nat) + 32) else c) s"

definition is_alnum :: "char \<Rightarrow> bool" where
  \<comment> \<open>the character class \<^verbatim>\<open>[a-zA-Z0-9]\<close>\<close>
  "is_alnum c =
     ((97 \<le> (of_char c :: nat) \<and> (of_char c :: nat) \<le> 122)
      \<or> (65 \<le> (of_char c :: nat) \<and> (of_char c :: nat) \<le> 90)
      \<or> (48 \<le> (of_char c :: nat) \<and> (of_char c :: nat) \<le> 57))"

definition sanitize :: "string \<Rightarrow> string" where
  \<comment> \<open>\<^verbatim>\<open>path.replace(/[^a-zA-Z0-9]/g, '_')\<close>\<close>
  "sanitize p = map (\<lambda>c. if is_alnum c then c else CHR ''_'') p"

definition synth_operationId :: "string \<Rightarrow> string \<Rightarrow> string" where
  \<comment> \<open>the template string of line 67\<close>
  "synth_operationId method path = toUpperCase method @ ''_'' @ sanitize path"

section \<open>swaggerParser.js\<close>

definition methods :: "string list" where
  "methods = [''get'', ''post'', ''put'', ''delete'', ''patch'', ''head'', ''options'']"

definition extractParameter :: "jsval \<Rightarrow> error + jsval" where
  \<comment> \<open>the arrow function that \<^verbatim>\<open>extractParameters\<close> maps over the array\<close>
  "extractParameter param =
     bindE (getp param ''name'') (\<lambda>name.
     bindE (getp param ''in'') (\<lambda>loc.
     bindE (getp param ''required'') (\<lambda>required.
     bindE (getp param ''description'') (\<lambda>description.
     bindE (getp param ''schema'') (\<lambda>schema.
     bindE (getp param ''example'') (\<lambda>example.
     bindE (getp param ''deprecated'') (\<lambda>deprecated.
       Inr (Obj [(''name'', name),
                 (''in'', loc),
                 (''required'', or_else required (Bool False)),
                 (''description'', or_else description (Str [])),
                 (''schema'', or_else schema (Obj [])),
                 (''example'', example),
                 (''deprecated'', or_else deprecated (Bool False))]))))))))"

fun extractParameters :: "jsval \<Rightarrow> error + jsval" where
  \<comment> \<open>only an array has \<^verbatim>\<open>map\<close>\<close>
  "extractParameters (Arr ps) = bindE (mapE extractParameter ps) (\<lambda>qs. Inr (Arr qs))"
| "extractParameters v = Inl TypeError"

definition extractRequestBody :: "jsval \<Rightarrow> error + jsval" where
  "extractRequestBody requestBody =
     (if \<not> truthy requestBody then Inr Null
      else
        bindE (getp requestBody ''required'') (\<lambda>required.
        bindE (getp requestBody ''description'') (\<lambda>description.
        bindE (getp requestBody ''content'') (\<lambda>content.
          Inr (Obj [(''required'', or_else required (Bool False)),
                    (''description'', or_else description (Str [])),
                    (''content'', or_else content (Obj []))])))))"

definition extractResponse :: "jsval \<Rightarrow> error + jsval" where
  \<comment> \<open>the object literal assigned to \<^verbatim>\<open>result[code]\<close>\<close>
  "extractResponse response =
     bindE (getp response ''description'') (\<lambda>description.
     bindE (getp response ''content'') (\<lambda>content.
     bindE (getp response ''headers'') (\<lambda>headers.
       Inr (Obj [(''description'', or_else description (Str [])),
                 (''content'', or_else content (Obj [])),
                 (''headers'', or_else headers (Obj []))]))))"

definition assign :: "string \<Rightarrow> jsval \<Rightarrow> (string \<times> jsval) list \<Rightarrow> (string \<times> jsval) list" where
  \<comment> \<open>\<^verbatim>\<open>result[code] = r\<close> on an object made by \<^verbatim>\<open>{}\<close>, for an object \<open>r\<close>:
      the key \<^verbatim>\<open>__proto__\<close> is the setter of \<^verbatim>\<open>Object.prototype\<close>, which replaces
      the prototype of \<^verbatim>\<open>result\<close> and creates no property\<close>
  "assign code r result = (if code = ''__proto__'' then result else AList.update code r result)"

fun responses_loop ::
  "(string \<times> jsval) list \<Rightarrow> (string \<times> jsval) list \<Rightarrow> error + (string \<times> jsval) list" where
  "responses_loop [] result = Inr result"
| "responses_loop ((code, response) # rest) result =
     (case extractResponse response of
        Inl e \<Rightarrow> Inl e
      | Inr r \<Rightarrow> responses_loop rest (assign code r result))"

definition extractResponses :: "jsval \<Rightarrow> error + jsval" where
  "extractResponses responses =
     bindE (entries responses) (\<lambda>es.
     bindE (responses_loop es []) (\<lambda>result. Inr (Obj result)))"

definition endpoint_of :: "string \<Rightarrow> string \<Rightarrow> jsval \<Rightarrow> error + jsval" where
  \<comment> \<open>the object literal \<^verbatim>\<open>endpoint\<close> of lines 64-76, for a truthy operation\<close>
  "endpoint_of path method operation =
     bindE (getp operation ''operationId'') (\<lambda>operationId.
     bindE (getp operation ''summary'') (\<lambda>summary.
     bindE (getp operation ''description'') (\<lambda>description.
     bindE (getp operation ''tags'') (\<lambda>tags.
     bindE (getp operation ''parameters'') (\<lambda>parameters.
     bindE (extractParameters (or_else parameters (Arr []))) (\<lambda>parameters'.
     bindE (getp operation ''requestBody'') (\<lambda>requestBody.
     bindE (extractRequestBody requestBody) (\<lambda>requestBody'.
     bindE (getp operation ''responses'') (\<lambda>responses.
     bindE (extractResponses responses) (\<lambda>responses'.
     bindE (getp operation ''security'') (\<lambda>security.
     bindE (getp operation ''deprecated'') (\<lambda>deprecated.
       Inr (Obj [(''path'', Str path),
                 (''method'', Str (toUpperCase method)),
                 (''operationId'',
                    or_else operationId (Str (synth_operationId method path))),
                 (''summary'', or_else summary (Str [])),
                 (''description'', or_else description (Str [])),
                 (''tags'', or_else tags (Arr [])),
                 (''parameters'', parameters'),
                 (''requestBody'', requestBody'),
                 (''responses'', responses'),
                 (''security'', or_else security (Arr [])),
                 (''deprecated'', or_else deprecated (Bool False))])))))))))))))"

fun methods_loop ::
  "string \<Rightarrow> jsval \<Rightarrow> string list \<Rightarrow> jsval list \<Rightarrow> error + jsval list" where
  "methods_loop path pathItem [] endpoints = Inr endpoints"
| "methods_loop path pathItem (method # rest) endpoints =
     (case getp pathItem method of
        Inl e \<Rightarrow> Inl e
      | Inr operation \<Rightarrow>
          if truthy operation then
            (case endpoint_of path method operation of
               Inl e \<Rightarrow> Inl e
             | Inr endpoint \<Rightarrow> methods_loop path pathItem rest (endpoints @ [endpoint]))
          else methods_loop path pathItem rest endpoints)"

fun paths_loop :: "(string \<times> jsval) list \<Rightarrow> jsval list \<Rightarrow> error + jsval list" where
  "paths_loop [] endpoints = Inr endpoints"
| "paths_loop ((path, pathItem) # rest) endpoints =
     (case methods_loop path pathItem methods endpoints of
        Inl e \<Rightarrow> Inl e
      | Inr endpoints' \<Rightarrow> paths_loop rest endpoints')"

definition extractEndpoints :: "jsval \<Rightarrow> error + jsval list" where
  "extractEndpoints api =
     bindE (getp api ''paths'') (\<lambda>paths.
       if \<not> truthy paths then Inr []
       else bindE (entries paths) (\<lambda>es. paths_loop es []))"

text \<open>
  A run is the list of what the program does that can be seen from outside, in order,
  together with its result or the error that ended it. The console lines have one
  constructor per template of index.js, with what is interpolated. Only \<open>RunTests\<close>
  sends HTTP requests. \<open>WriteFile\<close> is \<^verbatim>\<open>fs.writeFile(path, content, 'utf8')\<close>,
  \<open>Exit\<close> is \<^verbatim>\<open>process.exit\<close>.
\<close>

record tester_config =
  baseUrl :: "string option"
  timeout :: number
  sslVerify :: bool

datatype message =
    Msg_parsing
  | Msg_saved string
  | Msg_parse_failed error
  | Msg_testing
  | Msg_report_saved string
  | Msg_test_failed error
  | Msg_scan_start
  | Msg_parse_done jsval
  | Msg_scan_done string
  | Msg_no_baseUrl
  | Msg_hint
  | Msg_scan_failed error

datatype event =
    Console_log message
  | Console_error message
  | WriteFile string string
  | New_SecurityTester tester_config
  | RunTests tester_config jsval
  | New_Reporter
  | PrintEndpoints jsval
  | PrintTestResults jsval
  | SaveReport jsval string
  | Exit nat

type_synonym 'a run = "event list \<times> (error + 'a)"

definition emit :: "event \<Rightarrow> unit run" where
  "emit ev = ([ev], Inr ())"

definition call :: "event \<Rightarrow> error option \<Rightarrow> unit run" where
  \<comment> \<open>a call of a collaborator that returns nothing and may throw\<close>
  "call ev r = ([ev], case r of Some e \<Rightarrow> Inl e | None \<Rightarrow> Inr ())"

definition call_result :: "event \<Rightarrow> error + 'a \<Rightarrow> 'a run" where
  \<comment> \<open>a call of a collaborator that returns a value and may throw\<close>
  "call_result ev r = ([ev], r)"

definition pure :: "error + 'a \<Rightarrow> 'a run" where
  \<comment> \<open>a computation that nothing outside can see\<close>
  "pure r = ([], r)"

definition thenR :: "'a run \<Rightarrow> ('a \<Rightarrow> 'b run) \<Rightarrow> 'b run" where
  \<comment> \<open>sequencing: an error skips what follows\<close>
  "thenR m f =
     (case m of
        (evs, Inl e) \<Rightarrow> (evs, Inl e)
      | (evs, Inr x) \<Rightarrow> (case f x of (evs', r) \<Rightarrow> (evs @ evs', r)))"

text \<open>
  What the program reaches outside itself: \<^verbatim>\<open>fs.access\<close>, swagger-parser's
  \<^verbatim>\<open>parse\<close>, \<^verbatim>\<open>JSON.stringify(data, null, 2)\<close> (\<open>None\<close> is its result
  \<^verbatim>\<open>undefined\<close>), \<^verbatim>\<open>yaml.dump\<close>, the conversion of a value that is not a string
  to a string (inside \<^verbatim>\<open>join\<close>), the text that \<^verbatim>\<open>join\<close> gives for a property
  that a value does not own but may inherit from its prototype (\<open>inherited_text\<close>; the
  empty string where no prototype has it), whether \<^verbatim>\<open>fs.writeFile\<close> fails, and the
  tester and the reporter, whose sources are not part of this development.
\<close>

record env =
  fs_access :: "string \<Rightarrow> error option"
  parser_parse :: "string \<Rightarrow> error + jsval"
  JSON_stringify :: "jsval \<Rightarrow> string option"
  yaml_dump :: "jsval \<Rightarrow> error + string"
  ToString :: "jsval \<Rightarrow> error + string"
  inherited_text :: "jsval \<Rightarrow> string \<Rightarrow> error + string"
  fs_writeFile :: "string \<Rightarrow> string \<Rightarrow> error option"
  new_SecurityTester :: "tester_config \<Rightarrow> error option"
  runTests :: "tester_config \<Rightarrow> jsval \<Rightarrow> error + jsval"
  new_Reporter :: "error option"
  printEndpoints :: "jsval \<Rightarrow> error option"
  printTestResults :: "jsval \<Rightarrow> error option"
  saveReport :: "jsval \<Rightarrow> string \<Rightarrow> error option"

definition parse_try :: "env \<Rightarrow> string \<Rightarrow> error + jsval" where
  \<comment> \<open>the \<^verbatim>\<open>try\<close> block of \<^verbatim>\<open>parse\<close>\<close>
  "parse_try env filePath =
     (case fs_access env filePath of
        Some e \<Rightarrow> Inl e
      | None \<Rightarrow>
          bindE (parser_parse env filePath) (\<lambda>api.
          bindE (extractEndpoints api) (\<lambda>endpoints.
          bindE (getp api ''info'') (\<lambda>info.
          bindE (getp api ''servers'') (\<lambda>servers.
          bindE (getp api ''security'') (\<lambda>security.
          bindE (getp api ''components'') (\<lambda>components.
            Inr (Obj [(''info'', or_else info (Obj [])),
                      (''servers'', or_else servers (Arr [])),
                      (''endpoints'', Arr endpoints),
                      (''security'', or_else security (Arr [])),
                      (''components'', or_else components (Obj [])),
                      (''raw'', api)]))))))))"

definition parse :: "env \<Rightarrow> string \<Rightarrow> error + jsval" where
  "parse env filePath =
     (case parse_try env filePath of
        Inl e \<Rightarrow> Inl (ParseFailed e)
      | Inr result \<Rightarrow> Inr result)"

fun join_strings :: "string \<Rightarrow> string list \<Rightarrow> string" where
  "join_strings sep [] = []"
| "join_strings sep [s] = s"
| "join_strings sep (s # t # ss) = s @ sep @ join_strings sep (t # ss)"

definition element_text :: "env \<Rightarrow> jsval \<Rightarrow> error + string" where
  \<comment> \<open>what \<^verbatim>\<open>join\<close> makes of one element: \<^verbatim>\<open>null\<close> and \<^verbatim>\<open>undefined\<close> give
      the empty string\<close>
  "element_text env v =
     (case v of
        Undefined \<Rightarrow> Inr []
      | Null \<Rightarrow> Inr []
      | Str s \<Rightarrow> Inr s
      | _ \<Rightarrow> ToString env v)"

definition join :: "env \<Rightarrow> string \<Rightarrow> jsval list \<Rightarrow> error + string" where
  \<comment> \<open>\<^verbatim>\<open>xs.join(sep)\<close>\<close>
  "join env sep xs = bindE (mapE (element_text env) xs) (\<lambda>ss. Inr (join_strings sep ss))"

fun own_property :: "jsval \<Rightarrow> string \<Rightarrow> jsval option" where
  "own_property (Obj kvs) k = map_of kvs k"
| "own_property (Arr xs) k =
     (if k = ''length'' then Some (Num (Finite (of_nat (length xs))))
      else case array_index k of
             None \<Rightarrow> None
           | Some i \<Rightarrow> if i < int (length xs) then Some (xs ! nat i) else None)"
| "own_property (Str s) k =
     (if k = ''length'' then Some (Num (Finite (of_nat (length s))))
      else case array_index k of
             None \<Rightarrow> None
           | Some i \<Rightarrow> if i < int (length s) then Some (Str [s ! nat i]) else None)"
| "own_property v k = None"

definition cell_text :: "env \<Rightarrow> jsval \<Rightarrow> string \<Rightarrow> error + string" where
  \<comment> \<open>the text of \<^verbatim>\<open>item[header]\<close> in a row; the header comes from the data, so
      it may name a property that \<^verbatim>\<open>item\<close> inherits\<close>
  "cell_text env item header =
     (case item of
        Undefined \<Rightarrow> Inl TypeError
      | Null \<Rightarrow> Inl TypeError
      | _ \<Rightarrow> (case own_property item header of
                Some v \<Rightarrow> element_text env v
              | None \<Rightarrow> inherited_text env item header))"

definition csv_row :: "env \<Rightarrow> string list \<Rightarrow> jsval \<Rightarrow> error + string" where
  \<comment> \<open>\<^verbatim>\<open>headers.map(header => item[header]).join(',')\<close>\<close>
  "csv_row env headers item =
     bindE (mapE (cell_text env item) headers) (\<lambda>cells. Inr (join_strings '','' cells))"

definition convertToCsv :: "env \<Rightarrow> jsval \<Rightarrow> error + string" where
  "convertToCsv env data =
     (if \<not> truthy data then Inr []
      else
        bindE (getp data ''length'') (\<lambda>len.
          if \<not> truthy len then Inr []
          else
            bindE (getp data ''0'') (\<lambda>first.
            bindE (keys first) (\<lambda>headers.
            bindE (join env '','' (map Str headers)) (\<lambda>head_row.
              case data of
                Arr items \<Rightarrow>
                  bindE (mapE (csv_row env headers) items) (\<lambda>rows.
                    Inr (join_strings [CHR 0x0A] (head_row # rows)))
              | _ \<Rightarrow> Inl TypeError)))))"

definition saveToFile_content :: "env \<Rightarrow> jsval \<Rightarrow> string \<Rightarrow> error + string option" where
  \<comment> \<open>the \<^verbatim>\<open>switch\<close>: the value of \<^verbatim>\<open>content\<close>, \<open>None\<close> for \<^verbatim>\<open>undefined\<close>\<close>
  "saveToFile_content env data format =
     (let f = toLowerCase format in
      if f = ''json'' then Inr (JSON_stringify env data)
      else if f = ''yaml'' then bindE (yaml_dump env data) (\<lambda>c. Inr (Some c))
      else if f = ''txt'' then Inr (JSON_stringify env data)
      else if f = ''csv'' then bindE (convertToCsv env data) (\<lambda>c. Inr (Some c))
      else Inl (UnsupportedFormat format))"

definition saveToFile_try :: "env \<Rightarrow> jsval \<Rightarrow> string \<Rightarrow> string \<Rightarrow> unit run" where
  \<comment> \<open>the \<^verbatim>\<open>try\<close> block of \<^verbatim>\<open>saveToFile\<close>; \<^verbatim>\<open>fs.writeFile\<close> rejects a
      content that is not a string before it touches the file\<close>
  "saveToFile_try env data outputPath format =
     thenR (pure (saveToFile_content env data format)) (\<lambda>content.
       case content of
         None \<Rightarrow> pure (Inl TypeError)
       | Some c \<Rightarrow> call (WriteFile outputPath c) (fs_writeFile env outputPath c))"

definition saveToFile :: "env \<Rightarrow> jsval \<Rightarrow> string \<Rightarrow> string \<Rightarrow> unit run" where
  \<comment> \<open>the caller passes the format; the parameter's default is \<^verbatim>\<open>'json'\<close>\<close>
  "saveToFile env data outputPath format =
     (case saveToFile_try env data outputPath format of
        (evs, Inl e) \<Rightarrow> (evs, Inl (SaveFailed e))
      | (evs, Inr u) \<Rightarrow> (evs, Inr u))"

definition validate :: "env \<Rightarrow> string \<Rightarrow> error + bool" where
  "validate env filePath =
     (case parser_parse env filePath of
        Inl e \<Rightarrow> Inr False
      | Inr api \<Rightarrow> Inr True)"

section \<open>The command-line program\<close>

subsection \<open>parseInt\<close>

definition is_space :: "char \<Rightarrow> bool" where
  \<comment> \<open>the white space that \<^verbatim>\<open>parseInt\<close> skips, among the code units below 256\<close>
  "is_space c = ((of_char c :: nat) \<in> {9, 10, 11, 12, 13, 32, 160})"

definition digit_value :: "char \<Rightarrow> int option" where
  "digit_value c =
     (let n = (of_char c :: int) in
      if 48 \<le> n \<and> n \<le> 57 then Some (n - 48)
      else if 97 \<le> n \<and> n \<le> 102 then Some (n - 87)
      else if 65 \<le> n \<and> n \<le> 70 then Some (n - 55)
      else None)"

definition is_radix_digit :: "int \<Rightarrow> char \<Rightarrow> bool" where
  "is_radix_digit radix c = (case digit_value c of None \<Rightarrow> False | Some d \<Rightarrow> d < radix)"

definition digits_value :: "int \<Rightarrow> string \<Rightarrow> int" where
  "digits_value radix ds =
     foldl (\<lambda>a c. radix * a + (case digit_value c of None \<Rightarrow> 0 | Some d \<Rightarrow> d)) 0 ds"

function bit_length :: "int \<Rightarrow> int" where
  "bit_length n = (if n \<le> 0 then 0 else 1 + bit_length (n div 2))"
  by pat_completeness auto
termination
  by (relation "measure nat") auto

definition to_double :: "bool \<Rightarrow> int \<Rightarrow> number" where
  \<comment> \<open>the double nearest to an integer given by sign and magnitude: 53 significant
      bits, ties to the even one, an infinity from \<open>2^1024\<close> on\<close>
  "to_double neg n =
     (let e = nat (bit_length n - 53);
          q = n div 2 ^ e;
          r = n mod 2 ^ e;
          q' = (if 2 ^ e < 2 * r \<or> (2 * r = 2 ^ e \<and> odd q) then q + 1 else q);
          v = q' * 2 ^ e
      in if 1024 < bit_length v then Infinite neg
         else Finite (of_int (if neg then - v else v)))"

definition parseInt :: "string \<Rightarrow> number" where
  \<comment> \<open>\<^verbatim>\<open>parseInt(s)\<close> without a radix: white space, a sign, \<^verbatim>\<open>0x\<close> for base 16,
      then the longest run of digits; no digit gives \<^verbatim>\<open>NaN\<close>; the integer read is
      rounded to a double\<close>
  "parseInt s =
     (let t = dropWhile is_space s;
          neg = (take 1 t = ''-'');
          u = (if take 1 t = ''-'' \<or> take 1 t = ''+'' then drop 1 t else t);
          hex = (take 2 u = ''0x'' \<or> take 2 u = ''0X'');
          radix = (if hex then 16 else 10);
          ds = takeWhile (is_radix_digit radix) (if hex then drop 2 u else u)
      in if ds = [] then NaN else to_double neg (digits_value radix ds))"

subsection \<open>Options\<close>

text \<open>
  What the user typed, per command: an option that was not given is \<open>None\<close>. Commander
  fills in the declared default: \<^verbatim>\<open>'table'\<close> for the format of \<^verbatim>\<open>parse\<close>,
  \<^verbatim>\<open>'5000'\<close> for the timeout of \<^verbatim>\<open>test\<close>, \<^verbatim>\<open>'swagX-report.json'\<close> for the report
  of \<^verbatim>\<open>scan\<close>; \<^verbatim>\<open>--no-ssl-verify\<close> turns \<^verbatim>\<open>sslVerify\<close> from true to false.
\<close>

record parse_args =
  pa_output :: "string option"
  pa_format :: "string option"

record parse_options =
  p_output :: "string option"
  p_format :: string

definition parse_options_of :: "parse_args \<Rightarrow> parse_options" where
  "parse_options_of a =
     \<lparr>p_output = pa_output a,
      p_format = (case pa_format a of None \<Rightarrow> ''table'' | Some f \<Rightarrow> f)\<rparr>"

record test_args =
  ta_baseUrl :: "string option"
  ta_timeout :: "string option"
  ta_report :: "string option"
  ta_no_ssl_verify :: bool

record test_options =
  t_baseUrl :: "string option"
  t_timeout :: string
  t_report :: "string option"
  t_sslVerify :: bool

definition test_options_of :: "test_args \<Rightarrow> test_options" where
  "test_options_of a =
     \<lparr>t_baseUrl = ta_baseUrl a,
      t_timeout = (case ta_timeout a of None \<Rightarrow> ''5000'' | Some t \<Rightarrow> t),
      t_report = ta_report a,
      t_sslVerify = (\<not> ta_no_ssl_verify a)\<rparr>"

record scan_args =
  sa_baseUrl :: "string option"
  sa_output :: "string option"
  sa_report :: "string option"

record scan_options =
  s_baseUrl :: "string option"
  s_output :: "string option"
  s_report :: string

definition scan_options_of :: "scan_args \<Rightarrow> scan_options" where
  "scan_options_of a =
     \<lparr>s_baseUrl = sa_baseUrl a,
      s_output = sa_output a,
      s_report = (case sa_report a of None \<Rightarrow> ''swagX-report.json'' | Some r \<Rightarrow> r)\<rparr>"

definition given :: "string option \<Rightarrow> bool" where
  \<comment> \<open>\<^verbatim>\<open>if (options.x)\<close>: the option is there and is not the empty string\<close>
  "given x = (case x of None \<Rightarrow> False | Some s \<Rightarrow> s \<noteq> [])"

subsection \<open>The three actions\<close>

definition try_catch :: "(error \<Rightarrow> message) \<Rightarrow> unit run \<Rightarrow> event list" where
  \<comment> \<open>\<^verbatim>\<open>try { ... } catch (error) { console.error(...); process.exit(1); }\<close>\<close>
  "try_catch msg m =
     (case m of
        (evs, Inl e) \<Rightarrow> evs @ [Console_error (msg e), Exit 1]
      | (evs, Inr u) \<Rightarrow> evs)"

definition parse_action :: "env \<Rightarrow> string \<Rightarrow> parse_options \<Rightarrow> event list" where
  "parse_action env file options =
     try_catch Msg_parse_failed
       (thenR (emit (Console_log Msg_parsing)) (\<lambda>_.
        thenR (pure (parse env file)) (\<lambda>result.
          if given (p_output options) then
            thenR (saveToFile env result (the (p_output options)) (p_format options)) (\<lambda>_.
              emit (Console_log (Msg_saved (the (p_output options)))))
          else
            thenR (call New_Reporter (new_Reporter env)) (\<lambda>_.
              call (PrintEndpoints result) (printEndpoints env result)))))"

definition test_action :: "env \<Rightarrow> string \<Rightarrow> test_options \<Rightarrow> event list" where
  "test_action env file options =
     try_catch Msg_test_failed
       (thenR (emit (Console_log Msg_parsing)) (\<lambda>_.
        thenR (pure (parse env file)) (\<lambda>swaggerData.
        thenR (emit (Console_log Msg_testing)) (\<lambda>_.
        let config = \<lparr>baseUrl = t_baseUrl options,
                      timeout = parseInt (t_timeout options),
                      sslVerify = t_sslVerify options\<rparr> in
        thenR (call (New_SecurityTester config) (new_SecurityTester env config)) (\<lambda>_.
        thenR (call_result (RunTests config swaggerData)
                 (runTests env config swaggerData)) (\<lambda>results.
        thenR (call New_Reporter (new_Reporter env)) (\<lambda>_.
          if given (t_report options) then
            thenR (call (SaveReport results (the (t_report options)))
                     (saveReport env results (the (t_report options)))) (\<lambda>_.
              emit (Console_log (Msg_report_saved (the (t_report options)))))
          else
            call (PrintTestResults results) (printTestResults env results))))))))"

definition scan_action :: "env \<Rightarrow> string \<Rightarrow> scan_options \<Rightarrow> event list" where
  "scan_action env file options =
     try_catch Msg_scan_failed
       (thenR (emit (Console_log Msg_scan_start)) (\<lambda>_.
        thenR (pure (parse env file)) (\<lambda>swaggerData.
        thenR (pure (bindE (getp swaggerData ''endpoints'')
                       (\<lambda>endpoints. getp endpoints ''length''))) (\<lambda>n.
        thenR (emit (Console_log (Msg_parse_done n))) (\<lambda>_.
          if given (s_baseUrl options) then
            thenR (emit (Console_log Msg_testing)) (\<lambda>_.
            let config = \<lparr>baseUrl = s_baseUrl options,
                          timeout = Finite 5000,
                          sslVerify = True\<rparr> in
            thenR (call (New_SecurityTester config) (new_SecurityTester env config)) (\<lambda>_.
            thenR (call_result (RunTests config swaggerData)
                     (runTests env config swaggerData)) (\<lambda>results.
            thenR (call New_Reporter (new_Reporter env)) (\<lambda>_.
            let reportPath = (if given (s_output options)
                              then the (s_output options) @ ''/'' @ s_report options
                              else s_report options) in
            thenR (call (SaveReport results reportPath)
                     (saveReport env results reportPath)) (\<lambda>_.
              emit (Console_log (Msg_scan_done reportPath)))))))
          else
            thenR (emit (Console_log Msg_no_baseUrl)) (\<lambda>_.
              emit (Console_log Msg_hint)))))))"

section \<open>Vocabulary of the statements\<close>

text \<open>
  \<open>field v k\<close> is the value of \<^verbatim>\<open>v.k\<close> where the read does not raise, and
  \<^verbatim>\<open>undefined\<close> where it does. \<open>present_methods\<close> lists, in the order of
  \<open>methods\<close>, the methods under which a path item has an operation. \<open>path_entries\<close> are
  the paths of a document, each with its path item, in the order in which
  \<^verbatim>\<open>Object.entries\<close> enumerates them. \<open>endpoint_key\<close> is the path, method and
  operationId of an endpoint of the catalog, \<open>operation_key\<close> what the document gives
  for them.
\<close>

definition field :: "jsval \<Rightarrow> string \<Rightarrow> jsval" where
  "field v k = (case getp v k of Inl e \<Rightarrow> Undefined | Inr x \<Rightarrow> x)"

definition present_methods :: "jsval \<Rightarrow> string list" where
  "present_methods pathItem = filter (\<lambda>m. truthy (field pathItem m)) methods"

definition path_entries :: "jsval \<Rightarrow> (string \<times> jsval) list" where
  "path_entries api =
     (if truthy (field api ''paths'')
      then (case entries (field api ''paths'') of Inl e \<Rightarrow> [] | Inr es \<Rightarrow> es)
      else [])"

definition path_method :: "jsval \<Rightarrow> jsval \<times> jsval" where
  "path_method e = (field e ''path'', field e ''method'')"

definition column :: "string \<Rightarrow> jsval list \<Rightarrow> jsval list" where
  "column k eps = map (\<lambda>e. field e k) eps"


text \<open>
  The configurations with which a run creates a tester or runs its tests, in order.
\<close>

fun tester_configs :: "event list \<Rightarrow> tester_config list" where
  "tester_configs [] = []"
| "tester_configs (New_SecurityTester c # evs) = c # tester_configs evs"
| "tester_configs (RunTests c d # evs) = c # tester_configs evs"
| "tester_configs (ev # evs) = tester_configs evs"

definition endpoint_key :: "jsval \<Rightarrow> jsval \<times> jsval \<times> jsval" where
  "endpoint_key e = (field e ''path'', field e ''method'', field e ''operationId'')"

definition operation_key :: "string \<Rightarrow> jsval \<Rightarrow> string \<Rightarrow> jsval \<times> jsval \<times> jsval" where
  "operation_key path item m =
     (Str path, Str (toUpperCase m),
      or_else (field (field item m) ''operationId'') (Str (synth_operationId m path)))"

section \<open>Example documents\<close>

definition demo_api :: jsval where
  "demo_api =
     Obj [(''openapi'', Str ''3.0.0''),
          (''info'', Obj [(''title'', Str ''demo'')]),
          (''paths'',
             Obj [(''/users/{id}'',
                     Obj [(''get'',
                             Obj [(''parameters'',
                                     Arr [Obj [(''name'', Str ''id''),
                                               (''in'', Str ''path''),
                                               (''required'', Bool True)]]),
                                  (''responses'',
                                     Obj [(''200'', Obj [(''description'', Str ''ok'')])])]),
                          (''delete'', Obj [(''responses'', Obj [])])]),
                  (''/users'', Obj [(''post'', Obj [(''responses'', Obj [])])])])]"

definition clash_api :: jsval where
  "clash_api =
     Obj [(''openapi'', Str ''3.0.0''),
          (''info'', Obj [(''title'', Str ''clash'')]),
          (''paths'',
             Obj [(''/a-b'', Obj [(''get'', Obj [(''responses'', Obj [])])]),
                  (''/a_b'', Obj [(''get'', Obj [(''responses'', Obj [])])])])]"

definition demo_env :: env where
  "demo_env =
     \<lparr>fs_access = (\<lambda>p. if p = ''openapi.json'' then None else Some (External ''ENOENT'')),
      parser_parse = (\<lambda>p. if p = ''openapi.json'' then Inr demo_api
                           else Inl (External ''ENOENT'')),
      JSON_stringify = (\<lambda>v. Some ''{}''),
      yaml_dump = (\<lambda>v. Inr ''{}''),
      ToString = (\<lambda>v. Inr ''x''),
      inherited_text = (\<lambda>v k. Inr []),
      fs_writeFile = (\<lambda>p c. None),
      new_SecurityTester = (\<lambda>c. None),
      runTests = (\<lambda>c d. Inr (Obj [(''findings'', Arr [])])),
      new_Reporter = None,
      printEndpoints = (\<lambda>v. None),
      printTestResults = (\<lambda>v. None),
      saveReport = (\<lambda>v p. None)\<rparr>"

text \<open>
  Command lines for the example environment, and an environment whose tester refuses a
  configuration without baseUrl.
\<close>

definition demo_test_args :: test_args where
  "demo_test_args =
     \<lparr>ta_baseUrl = Some ''http://localhost:3000'', ta_timeout = None,
      ta_report = None, ta_no_ssl_verify = False\<rparr>"

definition demo_scan_args :: scan_args where
  "demo_scan_args =
     \<lparr>sa_baseUrl = Some ''http://localhost:3000'', sa_output = None, sa_report = None\<rparr>"

definition demo_config :: tester_config where
  "demo_config =
     \<lparr>baseUrl = Some ''http://localhost:3000'', timeout = Finite 5000, sslVerify = True\<rparr>"

definition no_baseUrl_args :: scan_args where
  "no_baseUrl_args = \<lparr>sa_baseUrl = None, sa_output = None, sa_report = None\<rparr>"

definition strict_env :: env where
  "strict_env =
     demo_env\<lparr>new_SecurityTester :=
       (\<lambda>c. if given (baseUrl c) then None else Some (External ''baseUrl is required''))\<rparr>"

definition no_baseUrl_test_args :: test_args where
  "no_baseUrl_test_args =
     \<lparr>ta_baseUrl = None, ta_timeout = None, ta_report = None, ta_no_ssl_verify = False\<rparr>"

text \<open>
  Further documents: one whose paths are not all written with a leading slash, one with
  every method and a member that is no method, one with a declared and an undeclared
  operationId, a Swagger 2.0 document with a body parameter, and one whose operation
  declares no responses, with an environment that serves it.
\<close>

definition order_api :: jsval where
  "order_api =
     Obj [(''openapi'', Str ''3.0.0''),
          (''info'', Obj [(''title'', Str ''order'')]),
          (''paths'',
             Obj [(''/b'', Obj [(''get'', Obj [(''responses'', Obj [])])]),
                  (''1'', Obj [(''get'', Obj [(''responses'', Obj [])])])])]"

definition methods_api :: jsval where
  "methods_api =
     Obj [(''openapi'', Str ''3.0.0''),
          (''info'', Obj [(''title'', Str ''methods'')]),
          (''paths'',
             Obj [(''/pets'',
                     Obj [(''trace'', Obj [(''responses'', Obj [])]),
                          (''options'', Obj [(''responses'', Obj [])]),
                          (''head'', Obj [(''responses'', Obj [])]),
                          (''patch'', Obj [(''responses'', Obj [])]),
                          (''delete'', Obj [(''responses'', Obj [])]),
                          (''put'', Obj [(''responses'', Obj [])]),
                          (''post'', Obj [(''responses'', Obj [])]),
                          (''get'', Obj [(''responses'', Obj [])])]),
                  (''/a'', Obj [(''post'', Obj [(''responses'', Obj [])])])])]"

definition ids_api :: jsval where
  "ids_api =
     Obj [(''openapi'', Str ''3.0.0''),
          (''info'', Obj [(''title'', Str ''ids'')]),
          (''paths'',
             Obj [(''/a-b'',
                     Obj [(''get'', Obj [(''operationId'', Str ''listAB''),
                                         (''responses'', Obj [])]),
                          (''post'', Obj [(''responses'', Obj [])])])])]"

definition swagger2_api :: jsval where
  "swagger2_api =
     Obj [(''swagger'', Str ''2.0''),
          (''info'', Obj [(''title'', Str ''pets''), (''version'', Str ''1.0'')]),
          (''paths'',
             Obj [(''/pets'',
                     Obj [(''post'',
                             Obj [(''parameters'',
                                     Arr [Obj [(''name'', Str ''pet''),
                                               (''in'', Str ''body''),
                                               (''required'', Bool True)]]),
                                  (''responses'',
                                     Obj [(''201'',
                                             Obj [(''description'', Str ''created'')])])])])])]"

definition no_responses_api :: jsval where
  "no_responses_api =
     Obj [(''openapi'', Str ''3.1.0''),
          (''info'', Obj [(''title'', Str ''bare'')]),
          (''paths'', Obj [(''/a'', Obj [(''get'', Obj [(''summary'', Str ''a'')])])])]"

definition bare_env :: env where
  "bare_env = demo_env\<lparr>parser_parse := (\<lambda>p. Inr no_responses_api)\<rparr>"

section \<open>Properties of the parser\<close>

subsection \<open>Auxiliary facts\<close>

lemma bindE_Inr_iff: "bindE m f = Inr y \<longleftrightarrow> (\<exists>x. m = Inr x \<and> f x = Inr y)"
  by (cases m) auto

lemma endpoint_of_key:
  assumes "endpoint_of path method operation = Inr ep"
  shows "endpoint_key ep =
           (Str path, Str (toUpperCase method),
            or_else (field operation ''operationId'') (Str (synth_operationId method path)))"
  using assms
  by (auto simp: endpoint_of_def bindE_Inr_iff endpoint_key_def field_def)

lemma methods_loop_shape:
  "methods_loop path item ms acc = Inr eps \<Longrightarrow>
   \<exists>new. eps = acc @ new \<and>
     map endpoint_key new =
       map (operation_key path item) (filter (\<lambda>m. truthy (field item m)) ms)"
proof (induction ms arbitrary: acc)
  case Nil
  then show ?case by simp
next
  case (Cons m ms)
  show ?case
  proof (cases "getp item m")
    case (Inl e)
    with Cons.prems show ?thesis by simp
  next
    case (Inr operation)
    show ?thesis
    proof (cases "truthy operation")
      case False
      with Inr Cons.prems have "methods_loop path item ms acc = Inr eps" by simp
      from Cons.IH[OF this] False Inr show ?thesis by (simp add: field_def)
    next
      case True
      with Inr Cons.prems obtain ep where
        ep: "endpoint_of path m operation = Inr ep"
        and rest: "methods_loop path item ms (acc @ [ep]) = Inr eps"
        by (auto split: sum.splits)
      from Cons.IH[OF rest] obtain new where
        new: "eps = (acc @ [ep]) @ new"
        "map endpoint_key new =
           map (operation_key path item) (filter (\<lambda>m. truthy (field item m)) ms)"
        by blast
      have op: "field item m = operation" using Inr by (simp add: field_def)
      have "eps = acc @ (ep # new)" using new(1) by simp
      moreover have "map endpoint_key (ep # new) =
           map (operation_key path item) (filter (\<lambda>m. truthy (field item m)) (m # ms))"
        using new(2) True op endpoint_of_key[OF ep] by (simp add: operation_key_def)
      ultimately show ?thesis by blast
    qed
  qed
qed

lemma paths_loop_shape:
  "paths_loop es acc = Inr eps \<Longrightarrow>
   \<exists>new. eps = acc @ new \<and>
     map endpoint_key new =
       concat (map (\<lambda>(path, item). map (operation_key path item) (present_methods item)) es)"
proof (induction es arbitrary: acc)
  case Nil
  then show ?case by simp
next
  case (Cons pe es)
  obtain path item where pe: "pe = (path, item)" by (cases pe)
  from Cons.prems pe obtain mid where
    mid: "methods_loop path item methods acc = Inr mid"
    and rest: "paths_loop es mid = Inr eps"
    by (auto split: sum.splits)
  from methods_loop_shape[OF mid] obtain new1 where
    n1: "mid = acc @ new1"
    "map endpoint_key new1 = map (operation_key path item) (present_methods item)"
    by (auto simp: present_methods_def)
  from Cons.IH[OF rest] obtain new2 where
    n2: "eps = mid @ new2"
    "map endpoint_key new2 =
       concat (map (\<lambda>(path, item). map (operation_key path item) (present_methods item)) es)"
    by blast
  have "eps = acc @ (new1 @ new2)" using n1(1) n2(1) by simp
  moreover have "map endpoint_key (new1 @ new2) =
       concat (map (\<lambda>(path, item). map (operation_key path item) (present_methods item))
                 (pe # es))"
    using n1(2) n2(2) pe by simp
  ultimately show ?case by blast
qed

lemma extractEndpoints_keys:
  assumes "extractEndpoints api = Inr eps"
  shows "map endpoint_key eps =
           concat (map (\<lambda>(path, item). map (operation_key path item) (present_methods item))
                     (path_entries api))"
proof -
  from assms obtain paths where paths: "getp api ''paths'' = Inr paths"
    by (auto simp: extractEndpoints_def bindE_Inr_iff)
  show ?thesis
  proof (cases "truthy paths")
    case False
    with assms paths show ?thesis
      by (simp add: extractEndpoints_def path_entries_def field_def)
  next
    case True
    with assms paths obtain es where
      es: "entries paths = Inr es" and loop: "paths_loop es [] = Inr eps"
      by (auto simp: extractEndpoints_def bindE_Inr_iff)
    from paths_loop_shape[OF loop] True paths es show ?thesis
      by (auto simp: path_entries_def field_def)
  qed
qed

lemma enumeration_order_no_index:
  assumes "\<forall>kv \<in> set kvs. array_index (fst kv) = None"
  shows "enumeration_order kvs = kvs"
proof -
  have "filter has_index_key kvs = []"
    using assms by (auto simp: has_index_key_def filter_empty_conv)
  moreover have "filter (\<lambda>kv. \<not> has_index_key kv) kvs = kvs"
    using assms by (auto simp: has_index_key_def filter_id_conv)
  ultimately show ?thesis by (simp add: enumeration_order_def)
qed

lemma array_index_slash: "array_index (CHR ''/'' # k) = None"
  by (simp add: array_index_def is_digit_def)

lemma toUpperCase_methods:
  "toUpperCase ''get'' = ''GET''" "toUpperCase ''post'' = ''POST''"
  "toUpperCase ''put'' = ''PUT''" "toUpperCase ''delete'' = ''DELETE''"
  "toUpperCase ''patch'' = ''PATCH''" "toUpperCase ''head'' = ''HEAD''"
  "toUpperCase ''options'' = ''OPTIONS''"
  by code_simp+

lemma synth_operationId_eq_iff:
  assumes "m1 \<in> set methods" "m2 \<in> set methods"
  shows "synth_operationId m1 p1 = synth_operationId m2 p2
           \<longleftrightarrow> m1 = m2 \<and> sanitize p1 = sanitize p2"
  using assms
  by (auto simp: methods_def synth_operationId_def toUpperCase_methods)

lemma extractEndpoints_not_nullish:
  "extractEndpoints api = Inr eps \<Longrightarrow> getp api k = Inr (field api k)"
  by (cases api) (auto simp: extractEndpoints_def field_def split: option.splits)

lemma parse_try_Inr:
  assumes "parse_try env filePath = Inr result"
  shows "\<exists>api endpoints.
           fs_access env filePath = None
         \<and> parser_parse env filePath = Inr api
         \<and> extractEndpoints api = Inr endpoints
         \<and> result = Obj [(''info'', or_else (field api ''info'') (Obj [])),
                         (''servers'', or_else (field api ''servers'') (Arr [])),
                         (''endpoints'', Arr endpoints),
                         (''security'', or_else (field api ''security'') (Arr [])),
                         (''components'', or_else (field api ''components'') (Obj [])),
                         (''raw'', api)]"
proof -
  from assms have acc: "fs_access env filePath = None"
    by (auto simp: parse_try_def split: option.splits)
  with assms obtain api endpoints where
    a: "parser_parse env filePath = Inr api" and e: "extractEndpoints api = Inr endpoints"
    by (auto simp: parse_try_def bindE_Inr_iff)
  from assms acc a e show ?thesis
    by (simp add: parse_try_def extractEndpoints_not_nullish[OF e])
qed




lemma parse_Inl:
  assumes "parse_try env filePath = Inl e"
  shows "parse env filePath = Inl (ParseFailed e)"
  using assms by (simp add: parse_def)

subsection \<open>The order of the endpoints\<close>

text \<open>
  C8, as the spec states it, fails in one part: the paths are not always taken in the
  order of the document. A path whose name is the numeral of an array index comes
  before every other path, wherever the document has it.
\<close>

theorem path_order_counterexample:
  "map_sum id (map fst) (entries (field order_api ''paths'')) = Inr [''1'', ''/b'']
   \<and> map_sum id (column ''path'') (extractEndpoints order_api) = Inr [Str ''1'', Str ''/b'']"
  by code_simp

text \<open>
  C8, amended. Every endpoint that \<open>extractEndpoints\<close> returns carries one of GET, POST,
  PUT, DELETE, PATCH, HEAD, OPTIONS as its method. The list is a function of the
  document: the endpoints come grouped by path and, within one path, in the fixed order
  get, post, put, delete, patch, head, options. The paths are taken in the order in
  which \<^verbatim>\<open>Object.entries\<close> enumerates them: those whose name is the numeral of an
  array index first, by ascending index, then the others in the order of the document;
  this is the order of the document when no path has such a name, in particular when
  every path begins with a slash. A document whose \<^verbatim>\<open>paths\<close> field is missing yields
  the empty list.
\<close>

theorem extractEndpoints_order:
  "(getp api ''paths'' = Inr Undefined \<longrightarrow> extractEndpoints api = Inr [])
   \<and> (\<forall>eps. extractEndpoints api = Inr eps \<longrightarrow>
        map path_method eps =
          concat (map (\<lambda>(path, item).
                    map (\<lambda>m. (Str path, Str (toUpperCase m)))
                      (filter (\<lambda>m. truthy (field item m))
                         [''get'', ''post'', ''put'', ''delete'', ''patch'', ''head'',
                          ''options'']))
                  (path_entries api))
        \<and> (\<forall>e \<in> set eps. field e ''method'' \<in>
              {Str ''GET'', Str ''POST'', Str ''PUT'', Str ''DELETE'', Str ''PATCH'',
               Str ''HEAD'', Str ''OPTIONS''}))
   \<and> (\<forall>kvs. field api ''paths'' = Obj kvs \<longrightarrow>
        path_entries api =
          sort_key index_of_key (filter has_index_key kvs)
            @ filter (\<lambda>kv. \<not> has_index_key kv) kvs
        \<and> ((\<forall>kv \<in> set kvs. array_index (fst kv) = None) \<longrightarrow> path_entries api = kvs)
        \<and> ((\<forall>kv \<in> set kvs. \<exists>k. fst kv = CHR ''/'' # k) \<longrightarrow> path_entries api = kvs))"
proof (intro conjI allI impI)
  assume "getp api ''paths'' = Inr Undefined"
  then show "extractEndpoints api = Inr []" by (simp add: extractEndpoints_def)
next
  fix eps
  assume ok: "extractEndpoints api = Inr eps"
  have pm: "path_method = (\<lambda>e. case endpoint_key e of (p, m, i) \<Rightarrow> (p, m))"
    by (simp add: fun_eq_iff path_method_def endpoint_key_def)
  have "map path_method eps = map (\<lambda>(p, m, i). (p, m)) (map endpoint_key eps)"
    by (simp add: pm)
  also have "\<dots> = concat (map (\<lambda>(path, item).
                    map (\<lambda>m. (Str path, Str (toUpperCase m))) (present_methods item))
                  (path_entries api))"
    unfolding extractEndpoints_keys[OF ok]
    by (simp add: map_concat comp_def case_prod_unfold operation_key_def)
  finally have order: "map path_method eps =
          concat (map (\<lambda>(path, item).
                    map (\<lambda>m. (Str path, Str (toUpperCase m))) (present_methods item))
                  (path_entries api))" .
  then show "map path_method eps =
          concat (map (\<lambda>(path, item).
                    map (\<lambda>m. (Str path, Str (toUpperCase m)))
                      (filter (\<lambda>m. truthy (field item m))
                         [''get'', ''post'', ''put'', ''delete'', ''patch'', ''head'',
                          ''options'']))
                  (path_entries api))"
    by (simp only: present_methods_def methods_def)
  show "\<forall>e \<in> set eps. field e ''method'' \<in>
              {Str ''GET'', Str ''POST'', Str ''PUT'', Str ''DELETE'', Str ''PATCH'',
               Str ''HEAD'', Str ''OPTIONS''}"
  proof
    fix e
    assume "e \<in> set eps"
    then have "path_method e \<in> set (map path_method eps)" by simp
    then obtain path item m where "m \<in> set (present_methods item)"
      "path_method e = (Str path, Str (toUpperCase m))"
      unfolding order by auto
    then have "m \<in> set methods" "field e ''method'' = Str (toUpperCase m)"
      by (auto simp: present_methods_def path_method_def)
    then show "field e ''method'' \<in>
              {Str ''GET'', Str ''POST'', Str ''PUT'', Str ''DELETE'', Str ''PATCH'',
               Str ''HEAD'', Str ''OPTIONS''}"
      by (auto simp: methods_def toUpperCase_methods)
  qed
next
  fix kvs
  assume p: "field api ''paths'' = Obj kvs"
  then show e: "path_entries api =
          sort_key index_of_key (filter has_index_key kvs)
            @ filter (\<lambda>kv. \<not> has_index_key kv) kvs"
    by (simp add: path_entries_def enumeration_order_def)
  {
    assume "\<forall>kv \<in> set kvs. array_index (fst kv) = None"
    from enumeration_order_no_index[OF this] p show "path_entries api = kvs"
      by (simp add: path_entries_def)
  }
  {
    assume "\<forall>kv \<in> set kvs. \<exists>k. fst kv = CHR ''/'' # k"
    then have "\<forall>kv \<in> set kvs. array_index (fst kv) = None"
      using array_index_slash by auto
    from enumeration_order_no_index[OF this] p show "path_entries api = kvs"
      by (simp add: path_entries_def)
  }
qed

text \<open>
  The statement at the empty object, at a document that lists all seven methods in the
  reverse order, and at the document with the path \<^verbatim>\<open>1\<close>.
\<close>

theorem extractEndpoints_order_witness:
  "getp (Obj []) ''paths'' = Inr Undefined \<and> extractEndpoints (Obj []) = Inr []
   \<and> (\<exists>eps. extractEndpoints methods_api = Inr eps
        \<and> map path_method eps =
            [(Str ''/pets'', Str ''GET''), (Str ''/pets'', Str ''POST''),
             (Str ''/pets'', Str ''PUT''), (Str ''/pets'', Str ''DELETE''),
             (Str ''/pets'', Str ''PATCH''), (Str ''/pets'', Str ''HEAD''),
             (Str ''/pets'', Str ''OPTIONS''), (Str ''/a'', Str ''POST'')]
        \<and> map fst (path_entries methods_api) = [''/pets'', ''/a''])
   \<and> (\<exists>eps. extractEndpoints order_api = Inr eps
        \<and> map path_method eps = [(Str ''1'', Str ''GET''), (Str ''/b'', Str ''GET'')])"
proof -
  have a: "getp (Obj []) ''paths'' = Inr Undefined" by simp
  have b: "extractEndpoints (Obj []) = Inr []"
    using a extractEndpoints_order [of "Obj []"] by blast
  have "\<not> isl (extractEndpoints methods_api)" by code_simp
  then obtain eps where run: "extractEndpoints methods_api = Inr eps"
    by (cases "extractEndpoints methods_api") auto
  have "\<not> isl (extractEndpoints order_api)" by code_simp
  then obtain eps' where run': "extractEndpoints order_api = Inr eps'"
    by (cases "extractEndpoints order_api") auto
  have rhs: "concat (map (\<lambda>(path, item).
                    map (\<lambda>m. (Str path, Str (toUpperCase m)))
                      (filter (\<lambda>m. truthy (field item m))
                         [''get'', ''post'', ''put'', ''delete'', ''patch'', ''head'',
                          ''options'']))
                  (path_entries methods_api)) =
            [(Str ''/pets'', Str ''GET''), (Str ''/pets'', Str ''POST''),
             (Str ''/pets'', Str ''PUT''), (Str ''/pets'', Str ''DELETE''),
             (Str ''/pets'', Str ''PATCH''), (Str ''/pets'', Str ''HEAD''),
             (Str ''/pets'', Str ''OPTIONS''), (Str ''/a'', Str ''POST'')]"
    by code_simp
  have rhs': "concat (map (\<lambda>(path, item).
                    map (\<lambda>m. (Str path, Str (toUpperCase m)))
                      (filter (\<lambda>m. truthy (field item m))
                         [''get'', ''post'', ''put'', ''delete'', ''patch'', ''head'',
                          ''options'']))
                  (path_entries order_api)) =
            [(Str ''1'', Str ''GET''), (Str ''/b'', Str ''GET'')]"
    by code_simp
  have pe: "map fst (path_entries methods_api) = [''/pets'', ''/a'']" by code_simp
  from extractEndpoints_order [of methods_api] run rhs
  have 1: "map path_method eps =
            [(Str ''/pets'', Str ''GET''), (Str ''/pets'', Str ''POST''),
             (Str ''/pets'', Str ''PUT''), (Str ''/pets'', Str ''DELETE''),
             (Str ''/pets'', Str ''PATCH''), (Str ''/pets'', Str ''HEAD''),
             (Str ''/pets'', Str ''OPTIONS''), (Str ''/a'', Str ''POST'')]"
    by simp
  from extractEndpoints_order [of order_api] run' rhs'
  have 2: "map path_method eps' = [(Str ''1'', Str ''GET''), (Str ''/b'', Str ''GET'')]"
    by simp
  from a b run run' 1 2 pe show ?thesis by simp
qed

subsection \<open>operationId\<close>

text \<open>
  C1, as the spec states it, fails: two different paths under the same method get the
  same synthesized operationId when they differ only in characters outside
  \<^verbatim>\<open>[a-zA-Z0-9]\<close>.
\<close>

theorem operationId_unique_counterexample:
  "map_sum id (column ''path'') (extractEndpoints clash_api) = Inr [Str ''/a-b'', Str ''/a_b'']
   \<and> map_sum id (column ''method'') (extractEndpoints clash_api) = Inr [Str ''GET'', Str ''GET'']
   \<and> map_sum id (column ''operationId'') (extractEndpoints clash_api)
       = Inr [Str ''GET__a_b'', Str ''GET__a_b'']"
  by code_simp

text \<open>
  C1, amended. In the catalog that \<open>extractEndpoints\<close> returns, the operationId of the
  endpoint of each path and method is the operationId that the operation declares when
  that is truthy; otherwise it is the uppercased method, an underscore and the path with
  every character outside \<^verbatim>\<open>[a-zA-Z0-9]\<close> replaced by an underscore, a function
  of method and path alone. Uniqueness is not enforced: two synthesized operationIds are
  equal exactly when the methods are equal and the paths are equal after that
  replacement.
\<close>

theorem operationId_synthesis:
  "(\<forall>eps. extractEndpoints api = Inr eps \<longrightarrow>
      map (\<lambda>e. (field e ''path'', field e ''method'', field e ''operationId'')) eps =
        concat (map (\<lambda>(path, item).
                  map (\<lambda>m. (Str path, Str (toUpperCase m),
                             if truthy (field (field item m) ''operationId'')
                             then field (field item m) ''operationId''
                             else Str (toUpperCase m @ ''_''
                                         @ map (\<lambda>c. if is_alnum c then c else CHR ''_'') path)))
                    (present_methods item))
                (path_entries api)))
   \<and> (m1 \<in> set methods \<and> m2 \<in> set methods \<longrightarrow>
        (synth_operationId m1 p1 = synth_operationId m2 p2
           \<longleftrightarrow> m1 = m2 \<and> sanitize p1 = sanitize p2))"
proof (intro conjI allI impI)
  fix eps
  assume ok: "extractEndpoints api = Inr eps"
  have k: "(\<lambda>e. (field e ''path'', field e ''method'', field e ''operationId'')) = endpoint_key"
    by (simp add: fun_eq_iff endpoint_key_def)
  have o: "\<And>path item.
      (\<lambda>m. (Str path, Str (toUpperCase m),
             if truthy (field (field item m) ''operationId'')
             then field (field item m) ''operationId''
             else Str (toUpperCase m @ ''_''
                         @ map (\<lambda>c. if is_alnum c then c else CHR ''_'') path)))
      = operation_key path item"
    by (simp add: fun_eq_iff operation_key_def or_else_def synth_operationId_def sanitize_def)
  show "map (\<lambda>e. (field e ''path'', field e ''method'', field e ''operationId'')) eps =
        concat (map (\<lambda>(path, item).
                  map (\<lambda>m. (Str path, Str (toUpperCase m),
                             if truthy (field (field item m) ''operationId'')
                             then field (field item m) ''operationId''
                             else Str (toUpperCase m @ ''_''
                                         @ map (\<lambda>c. if is_alnum c then c else CHR ''_'') path)))
                    (present_methods item))
                (path_entries api))"
    unfolding k o by (rule extractEndpoints_keys[OF ok])
next
  assume "m1 \<in> set methods \<and> m2 \<in> set methods"
  then show "synth_operationId m1 p1 = synth_operationId m2 p2
           \<longleftrightarrow> m1 = m2 \<and> sanitize p1 = sanitize p2"
    using synth_operationId_eq_iff by blast
qed

text \<open>
  The statement at a document with one declared and one undeclared operationId, and at
  the two paths of the counterexample.
\<close>

theorem operationId_synthesis_witness:
  "(\<exists>eps. extractEndpoints ids_api = Inr eps
       \<and> map (\<lambda>e. (field e ''path'', field e ''method'', field e ''operationId'')) eps =
           [(Str ''/a-b'', Str ''GET'', Str ''listAB''),
            (Str ''/a-b'', Str ''POST'', Str ''POST__a_b'')])
   \<and> ''get'' \<in> set methods \<and> ''post'' \<in> set methods
   \<and> synth_operationId ''get'' ''/a-b'' = synth_operationId ''get'' ''/a_b''
   \<and> synth_operationId ''get'' ''/a'' \<noteq> synth_operationId ''post'' ''/a''"
proof -
  have "\<not> isl (extractEndpoints ids_api)" by code_simp
  then obtain eps where run: "extractEndpoints ids_api = Inr eps"
    by (cases "extractEndpoints ids_api") auto
  have rhs: "concat (map (\<lambda>(path, item).
                  map (\<lambda>m. (Str path, Str (toUpperCase m),
                             if truthy (field (field item m) ''operationId'')
                             then field (field item m) ''operationId''
                             else Str (toUpperCase m @ ''_''
                                         @ map (\<lambda>c. if is_alnum c then c else CHR ''_'') path)))
                    (present_methods item))
                (path_entries ids_api)) =
           [(Str ''/a-b'', Str ''GET'', Str ''listAB''),
            (Str ''/a-b'', Str ''POST'', Str ''POST__a_b'')]"
    by code_simp
  have m: "''get'' \<in> set methods" "''post'' \<in> set methods" by (simp_all add: methods_def)
  have san: "sanitize ''/a-b'' = sanitize ''/a_b''" by code_simp
  from operationId_synthesis [of ids_api "''get''" "''get''" "''/a-b''" "''/a_b''"] run rhs
  have 1: "map (\<lambda>e. (field e ''path'', field e ''method'', field e ''operationId'')) eps =
           [(Str ''/a-b'', Str ''GET'', Str ''listAB''),
            (Str ''/a-b'', Str ''POST'', Str ''POST__a_b'')]"
    by simp
  from operationId_synthesis [of ids_api "''get''" "''get''" "''/a-b''" "''/a_b''"] m san
  have 2: "synth_operationId ''get'' ''/a-b'' = synth_operationId ''get'' ''/a_b''"
    by simp
  from operationId_synthesis [of ids_api "''get''" "''post''" "''/a''" "''/a''"] m
  have 3: "synth_operationId ''get'' ''/a'' \<noteq> synth_operationId ''post'' ''/a''"
    by simp
  from run 1 2 3 m show ?thesis by simp
qed

subsection \<open>The result of parse\<close>

text \<open>
  C2, as the spec states it, fails: the object that \<open>parse\<close> returns has a sixth field,
  \<^verbatim>\<open>raw\<close>.
\<close>

theorem parse_fields_counterexample:
  "bindE (parse demo_env ''openapi.json'') keys =
     Inr [''info'', ''servers'', ''endpoints'', ''security'', ''components'', ''raw'']"
  by code_simp

text \<open>
  C2, amended. Where \<open>parse\<close> succeeds, its result has exactly the fields info, servers,
  endpoints, security, components and raw, in this order: endpoints is the list that
  \<open>extractEndpoints\<close> returns, raw is the document as swagger-parser returned it, and
  info, servers, security and components are the document's, with the empty object
  (info, components) or the empty list (servers, security) in place of a falsy value,
  in particular of an absent one.
\<close>

theorem parse_result_fields:
  assumes "parse env filePath = Inr result"
  shows "\<exists>api endpoints.
           parser_parse env filePath = Inr api
         \<and> extractEndpoints api = Inr endpoints
         \<and> result = Obj [(''info'', or_else (field api ''info'') (Obj [])),
                         (''servers'', or_else (field api ''servers'') (Arr [])),
                         (''endpoints'', Arr endpoints),
                         (''security'', or_else (field api ''security'') (Arr [])),
                         (''components'', or_else (field api ''components'') (Obj [])),
                         (''raw'', api)]
         \<and> (field api ''info'' = Undefined \<longrightarrow> field result ''info'' = Obj [])
         \<and> (field api ''servers'' = Undefined \<longrightarrow> field result ''servers'' = Arr [])
         \<and> (field api ''security'' = Undefined \<longrightarrow> field result ''security'' = Arr [])
         \<and> (field api ''components'' = Undefined \<longrightarrow> field result ''components'' = Obj [])"
proof -
  from assms have "parse_try env filePath = Inr result"
    by (auto simp: parse_def split: sum.splits)
  from parse_try_Inr[OF this] show ?thesis
    by (auto simp: field_def or_else_def)
qed

text \<open>The statement at the example document, which has info and none of the other three.\<close>

theorem parse_result_fields_witness:
  "\<exists>result. parse demo_env ''openapi.json'' = Inr result
     \<and> field result ''info'' = Obj [(''title'', Str ''demo'')]
     \<and> field result ''servers'' = Arr []
     \<and> field result ''security'' = Arr []
     \<and> field result ''components'' = Obj []
     \<and> field result ''raw'' = demo_api"
proof -
  have "\<not> isl (parse demo_env ''openapi.json'')" by code_simp
  then obtain result where r: "parse demo_env ''openapi.json'' = Inr result"
    by (cases "parse demo_env ''openapi.json''") auto
  have p: "parser_parse demo_env ''openapi.json'' = Inr demo_api" by (simp add: demo_env_def)
  have f: "field demo_api ''info'' = Obj [(''title'', Str ''demo'')]"
    "field demo_api ''servers'' = Undefined" "field demo_api ''security'' = Undefined"
    "field demo_api ''components'' = Undefined"
    by code_simp+
  from parse_result_fields [OF r] p f r show ?thesis
    by (auto simp: field_def or_else_def)
qed

subsection \<open>Parameters\<close>

text \<open>
  C4. Every parameter of every endpoint of the catalog should carry a location among
  path, query, header and cookie, as the comment on \<^verbatim>\<open>in: param.in\<close> says too. The
  code copies \<^verbatim>\<open>in\<close> unchecked: for a Swagger 2.0 document with a body parameter,
  the parameter of the catalog has the location \<^verbatim>\<open>body\<close>.
\<close>

theorem body_parameter_location:
  "map_sum id (column ''parameters'') (extractEndpoints swagger2_api) =
     Inr [Arr [Obj [(''name'', Str ''pet''), (''in'', Str ''body''),
                    (''required'', Bool True), (''description'', Str []),
                    (''schema'', Obj []), (''example'', Undefined),
                    (''deprecated'', Bool False)]]]
   \<and> Str ''body'' \<notin> {Str ''path'', Str ''query'', Str ''header'', Str ''cookie''}"
  by code_simp

subsection \<open>validate\<close>

text \<open>
  C9, as the spec states it, fails when parsing is what \<open>parse\<close> does: for a document
  that swagger-parser accepts and whose operation declares no responses,
  \<open>validate\<close> returns true although \<open>parse\<close> throws.
\<close>

theorem validate_counterexample:
  "validate bare_env ''openapi.json'' = Inr True
   \<and> parse bare_env ''openapi.json'' = Inl (ParseFailed TypeError)"
  by code_simp

text \<open>
  C9, amended. \<open>validate\<close> never throws. It returns true exactly when
  swagger-parser's \<^verbatim>\<open>parse\<close> of the file succeeds and false exactly when that
  fails. Whenever \<open>parse\<close> succeeds \<open>validate\<close> returns true, and whenever \<open>validate\<close>
  returns false \<open>parse\<close> throws; the converses do not hold, since \<open>parse\<close> also needs
  \<^verbatim>\<open>fs.access\<close> and the extraction of the endpoints to succeed.
\<close>

theorem validate_total:
  "(\<exists>b. validate env filePath = Inr b)
   \<and> (validate env filePath = Inr True \<longleftrightarrow> (\<exists>api. parser_parse env filePath = Inr api))
   \<and> (validate env filePath = Inr False \<longleftrightarrow> (\<exists>e. parser_parse env filePath = Inl e))
   \<and> (\<forall>result. parse env filePath = Inr result \<longrightarrow> validate env filePath = Inr True)
   \<and> (validate env filePath = Inr False \<longrightarrow> (\<exists>e. parse env filePath = Inl (ParseFailed e)))"
proof (intro conjI allI impI)
  show "\<exists>b. validate env filePath = Inr b"
    by (auto simp: validate_def split: sum.splits)
  show "validate env filePath = Inr True \<longleftrightarrow> (\<exists>api. parser_parse env filePath = Inr api)"
    by (auto simp: validate_def split: sum.splits)
  show f: "validate env filePath = Inr False \<longleftrightarrow> (\<exists>e. parser_parse env filePath = Inl e)"
    by (auto simp: validate_def split: sum.splits)
next
  fix result
  assume "parse env filePath = Inr result"
  then have "parse_try env filePath = Inr result"
    by (auto simp: parse_def split: sum.splits)
  from parse_try_Inr[OF this] show "validate env filePath = Inr True"
    by (auto simp: validate_def)
next
  assume "validate env filePath = Inr False"
  then obtain e where "parser_parse env filePath = Inl e"
    by (auto simp: validate_def split: sum.splits)
  then have "\<exists>e'. parse_try env filePath = Inl e'"
    by (auto simp: parse_try_def split: option.splits)
  then show "\<exists>e. parse env filePath = Inl (ParseFailed e)"
    using parse_Inl by blast
qed

text \<open>The statement at a file that parses and at a file that is missing.\<close>

theorem validate_total_witness:
  "validate demo_env ''openapi.json'' = Inr True
   \<and> parser_parse demo_env ''openapi.json'' = Inr demo_api
   \<and> (\<exists>result. parse demo_env ''openapi.json'' = Inr result)
   \<and> validate demo_env ''missing.json'' = Inr False
   \<and> parser_parse demo_env ''missing.json'' = Inl (External ''ENOENT'')
   \<and> (\<exists>e. parse demo_env ''missing.json'' = Inl (ParseFailed e))"
proof -
  have a: "parser_parse demo_env ''openapi.json'' = Inr demo_api"
    and b: "parser_parse demo_env ''missing.json'' = Inl (External ''ENOENT'')"
    by (simp_all add: demo_env_def)
  have "\<not> isl (parse demo_env ''openapi.json'')" by code_simp
  then obtain result where r: "parse demo_env ''openapi.json'' = Inr result"
    by (cases "parse demo_env ''openapi.json''") auto
  from validate_total [of demo_env "''openapi.json''"] a r
  have 1: "validate demo_env ''openapi.json'' = Inr True" by blast
  from validate_total [of demo_env "''missing.json''"] b
  have 2: "validate demo_env ''missing.json'' = Inr False"
    and 3: "\<exists>e. parse demo_env ''missing.json'' = Inl (ParseFailed e)"
    by blast+
  from a b r 1 2 3 show ?thesis by simp
qed

subsection \<open>saveToFile\<close>



section \<open>Properties of the command-line program\<close>

subsection \<open>Auxiliary facts\<close>

lemmas run_defs = thenR_def emit_def call_def call_result_def pure_def try_catch_def

lemma tester_configs_append: "tester_configs (xs @ ys) = tester_configs xs @ tester_configs ys"
  by (induction xs rule: tester_configs.induct) simp_all

lemma test_action_configs:
  assumes "c \<in> set (tester_configs (test_action env file options))"
  shows "c = \<lparr>baseUrl = t_baseUrl options, timeout = parseInt (t_timeout options),
              sslVerify = t_sslVerify options\<rparr>"
  using assms
  by (auto simp: test_action_def run_defs Let_def tester_configs_append
           split: sum.splits option.splits if_splits)

lemma scan_action_configs:
  assumes "c \<in> set (tester_configs (scan_action env file options))"
  shows "given (s_baseUrl options) \<and>
         c = \<lparr>baseUrl = s_baseUrl options, timeout = Finite 5000, sslVerify = True\<rparr>"
  using assms
  by (auto simp: scan_action_def run_defs Let_def tester_configs_append
           split: sum.splits option.splits if_splits)

lemma parseInt_default: "parseInt ''5000'' = Finite 5000"
  by code_simp

lemma parse_endpoints_length:
  assumes "parse env fname = Inr data"
  shows "\<exists>eps. getp data ''endpoints'' = Inr (Arr eps)"
proof -
  from assms have "parse_try env fname = Inr data"
    by (auto simp: parse_def split: sum.splits)
  from parse_try_Inr[OF this] show ?thesis by auto
qed

subsection \<open>A failing parse\<close>

text \<open>
  C3. Where the file is missing or swagger-parser rejects the document, \<open>parse\<close> throws
  and returns no catalog. Whenever \<open>parse\<close> throws, each of the three commands prints
  the error and exits with code 1 right after its first console line: no tester is
  created, no test is run and no request is sent.
\<close>

theorem parse_failure_aborts:
  "((fs_access env fname \<noteq> None \<or> (\<exists>e. parser_parse env fname = Inl e))
      \<longrightarrow> (\<exists>e. parse env fname = Inl (ParseFailed e)))
   \<and> (\<forall>e. parse env fname = Inl e \<longrightarrow>
        test_action env fname topts
          = [Console_log Msg_parsing, Console_error (Msg_test_failed e), Exit 1]
      \<and> scan_action env fname sopts
          = [Console_log Msg_scan_start, Console_error (Msg_scan_failed e), Exit 1]
      \<and> parse_action env fname popts
          = [Console_log Msg_parsing, Console_error (Msg_parse_failed e), Exit 1])"
proof (intro conjI allI impI)
  assume "fs_access env fname \<noteq> None \<or> (\<exists>e. parser_parse env fname = Inl e)"
  then have "\<exists>e. parse_try env fname = Inl e"
    by (auto simp: parse_try_def split: option.splits)
  then show "\<exists>e. parse env fname = Inl (ParseFailed e)"
    by (auto simp: parse_def)
next
  fix e
  assume f: "parse env fname = Inl e"
  show "test_action env fname topts
          = [Console_log Msg_parsing, Console_error (Msg_test_failed e), Exit 1]"
    by (simp add: test_action_def run_defs f)
  show "scan_action env fname sopts
          = [Console_log Msg_scan_start, Console_error (Msg_scan_failed e), Exit 1]"
    by (simp add: scan_action_def run_defs f)
  show "parse_action env fname popts
          = [Console_log Msg_parsing, Console_error (Msg_parse_failed e), Exit 1]"
    by (simp add: parse_action_def run_defs f)
qed

text \<open>The statement at a file that does not exist.\<close>

theorem parse_failure_aborts_witness:
  "fs_access demo_env ''missing.json'' \<noteq> None
   \<and> parse demo_env ''missing.json'' = Inl (ParseFailed (External ''ENOENT''))
   \<and> test_action demo_env ''missing.json'' (test_options_of demo_test_args)
       = [Console_log Msg_parsing,
          Console_error (Msg_test_failed (ParseFailed (External ''ENOENT''))), Exit 1]
   \<and> scan_action demo_env ''missing.json'' (scan_options_of demo_scan_args)
       = [Console_log Msg_scan_start,
          Console_error (Msg_scan_failed (ParseFailed (External ''ENOENT''))), Exit 1]"
proof -
  have a: "fs_access demo_env ''missing.json'' \<noteq> None" by (simp add: demo_env_def)
  have p: "parse demo_env ''missing.json'' = Inl (ParseFailed (External ''ENOENT''))"
    by code_simp
  from parse_failure_aborts [of demo_env "''missing.json''" "test_options_of demo_test_args"
      "scan_options_of demo_scan_args"] a p
  show ?thesis by simp
qed

subsection \<open>A missing baseUrl\<close>

text \<open>
  C5, as the spec states it, fails: without \<^verbatim>\<open>--base-url\<close> the scan command prints
  that the tests are skipped and ends normally; there is no error and no exit code 1.
\<close>

theorem missing_baseUrl_counterexample:
  "scan_action demo_env ''openapi.json'' (scan_options_of no_baseUrl_args)
     = [Console_log Msg_scan_start, Console_log (Msg_parse_done (Num (Finite 3))),
        Console_log Msg_no_baseUrl, Console_log Msg_hint]"
  by code_simp

text \<open>
  C5, amended. A run of the scan command without a baseUrl (absent or empty) creates no
  tester and sends no request; after a successful parse it prints the number of
  endpoints of the catalog, a notice that the tests are skipped and a hint, and ends
  normally. A run of the test command hands baseUrl to the tester as it was given
  (absent when it was not given); when the tester's constructor throws, the run prints
  the error and exits with code 1 before any test is run.
\<close>

theorem missing_baseUrl:
  "(\<not> given (s_baseUrl sopts) \<longrightarrow>
      tester_configs (scan_action env fname sopts) = []
      \<and> (\<forall>data. parse env fname = Inr data \<longrightarrow>
           (\<exists>eps. getp data ''endpoints'' = Inr (Arr eps)
              \<and> scan_action env fname sopts
                  = [Console_log Msg_scan_start,
                     Console_log (Msg_parse_done (Num (Finite (of_nat (length eps))))),
                     Console_log Msg_no_baseUrl, Console_log Msg_hint])))
   \<and> (\<forall>c \<in> set (tester_configs (test_action env fname topts)). baseUrl c = t_baseUrl topts)
   \<and> (\<forall>data e. parse env fname = Inr data
        \<and> new_SecurityTester env \<lparr>baseUrl = t_baseUrl topts,
              timeout = parseInt (t_timeout topts), sslVerify = t_sslVerify topts\<rparr> = Some e
        \<longrightarrow> test_action env fname topts
              = [Console_log Msg_parsing, Console_log Msg_testing,
                 New_SecurityTester \<lparr>baseUrl = t_baseUrl topts,
                   timeout = parseInt (t_timeout topts), sslVerify = t_sslVerify topts\<rparr>,
                 Console_error (Msg_test_failed e), Exit 1])"
proof (intro conjI allI impI ballI)
  assume n: "\<not> given (s_baseUrl sopts)"
  show "tester_configs (scan_action env fname sopts) = []"
  proof (cases "tester_configs (scan_action env fname sopts)")
    case (Cons c cs)
    then have "c \<in> set (tester_configs (scan_action env fname sopts))" by simp
    from scan_action_configs[OF this] n show ?thesis by simp
  qed simp
  fix data
  assume d: "parse env fname = Inr data"
  from parse_endpoints_length[OF d] obtain eps where
    eps: "getp data ''endpoints'' = Inr (Arr eps)"
    by blast
  have "scan_action env fname sopts
          = [Console_log Msg_scan_start,
             Console_log (Msg_parse_done (Num (Finite (of_nat (length eps))))),
             Console_log Msg_no_baseUrl, Console_log Msg_hint]"
    by (simp add: scan_action_def run_defs d eps n)
  with eps show "\<exists>eps. getp data ''endpoints'' = Inr (Arr eps)
              \<and> scan_action env fname sopts
                  = [Console_log Msg_scan_start,
                     Console_log (Msg_parse_done (Num (Finite (of_nat (length eps))))),
                     Console_log Msg_no_baseUrl, Console_log Msg_hint]"
    by blast
next
  fix c
  assume "c \<in> set (tester_configs (test_action env fname topts))"
  from test_action_configs[OF this] show "baseUrl c = t_baseUrl topts" by simp
next
  fix data e
  assume "parse env fname = Inr data
        \<and> new_SecurityTester env \<lparr>baseUrl = t_baseUrl topts,
              timeout = parseInt (t_timeout topts), sslVerify = t_sslVerify topts\<rparr> = Some e"
  then show "test_action env fname topts
              = [Console_log Msg_parsing, Console_log Msg_testing,
                 New_SecurityTester \<lparr>baseUrl = t_baseUrl topts,
                   timeout = parseInt (t_timeout topts), sslVerify = t_sslVerify topts\<rparr>,
                 Console_error (Msg_test_failed e), Exit 1]"
    by (simp add: test_action_def run_defs Let_def)
qed

text \<open>The statement at a scan and a test without baseUrl, with a tester that insists on one.\<close>

theorem missing_baseUrl_witness:
  "\<not> given (s_baseUrl (scan_options_of no_baseUrl_args))
   \<and> tester_configs (scan_action strict_env ''openapi.json'' (scan_options_of no_baseUrl_args)) = []
   \<and> scan_action strict_env ''openapi.json'' (scan_options_of no_baseUrl_args)
       = [Console_log Msg_scan_start, Console_log (Msg_parse_done (Num (Finite 3))),
          Console_log Msg_no_baseUrl, Console_log Msg_hint]
   \<and> test_action strict_env ''openapi.json'' (test_options_of no_baseUrl_test_args)
       = [Console_log Msg_parsing, Console_log Msg_testing,
          New_SecurityTester \<lparr>baseUrl = None, timeout = Finite 5000, sslVerify = True\<rparr>,
          Console_error (Msg_test_failed (External ''baseUrl is required'')), Exit 1]"
proof -
  have g: "\<not> given (s_baseUrl (scan_options_of no_baseUrl_args))" by code_simp
  have "\<not> isl (parse strict_env ''openapi.json'')" by code_simp
  then obtain data where d: "parse strict_env ''openapi.json'' = Inr data"
    by (cases "parse strict_env ''openapi.json''") auto
  have s: "scan_action strict_env ''openapi.json'' (scan_options_of no_baseUrl_args)
       = [Console_log Msg_scan_start, Console_log (Msg_parse_done (Num (Finite 3))),
          Console_log Msg_no_baseUrl, Console_log Msg_hint]" by code_simp
  have c: "\<lparr>baseUrl = t_baseUrl (test_options_of no_baseUrl_test_args),
             timeout = parseInt (t_timeout (test_options_of no_baseUrl_test_args)),
             sslVerify = t_sslVerify (test_options_of no_baseUrl_test_args)\<rparr>
           = \<lparr>baseUrl = None, timeout = Finite 5000, sslVerify = True\<rparr>" by code_simp
  have t: "new_SecurityTester strict_env
             \<lparr>baseUrl = None, timeout = Finite 5000, sslVerify = True\<rparr>
           = Some (External ''baseUrl is required'')" by code_simp
  from missing_baseUrl [of "scan_options_of no_baseUrl_args" strict_env "''openapi.json''"
      "test_options_of no_baseUrl_test_args"] g d s c t
  show ?thesis by simp
qed

subsection \<open>The default timeout\<close>

text \<open>
  C6. When the user gives no timeout, every configuration with which the test command
  creates a tester or runs its tests has the timeout 5000; the scan command, which has
  no timeout option, always uses 5000.
\<close>

theorem default_timeout:
  "(ta_timeout args = None \<longrightarrow>
      (\<forall>c \<in> set (tester_configs (test_action env fname (test_options_of args))).
         timeout c = Finite 5000))
   \<and> (\<forall>c \<in> set (tester_configs (scan_action env fname (scan_options_of sargs))).
         timeout c = Finite 5000)"
proof (intro conjI impI ballI)
  fix c
  assume "ta_timeout args = None"
    and "c \<in> set (tester_configs (test_action env fname (test_options_of args)))"
  then show "timeout c = Finite 5000"
    using test_action_configs[of c env fname "test_options_of args"]
    by (simp add: test_options_of_def parseInt_default)
next
  fix c
  assume "c \<in> set (tester_configs (scan_action env fname (scan_options_of sargs)))"
  then show "timeout c = Finite 5000"
    using scan_action_configs[of c env fname "scan_options_of sargs"] by simp
qed

text \<open>The statement at runs that do create a tester.\<close>

theorem default_timeout_witness:
  "ta_timeout demo_test_args = None
   \<and> tester_configs (test_action demo_env ''openapi.json'' (test_options_of demo_test_args))
       = [demo_config, demo_config]
   \<and> tester_configs (scan_action demo_env ''openapi.json'' (scan_options_of demo_scan_args))
       = [demo_config, demo_config]
   \<and> timeout demo_config = Finite 5000"
proof -
  have a: "ta_timeout demo_test_args = None" by (simp add: demo_test_args_def)
  have t: "tester_configs (test_action demo_env ''openapi.json'' (test_options_of demo_test_args))
       = [demo_config, demo_config]" by code_simp
  have s: "tester_configs (scan_action demo_env ''openapi.json'' (scan_options_of demo_scan_args))
       = [demo_config, demo_config]" by code_simp
  from default_timeout [of demo_test_args demo_env "''openapi.json''" demo_scan_args] a t s
  show ?thesis by simp
qed

end
